theory Spec2Isabelle
  imports Complex_Main
begin

section \<open>Numeric cells of a dataframe column\<close>

text \<open>
  A numeric cell of a pandas column is a float64. The model keeps the three special
  values apart (\<open>NaN\<close> is pandas' null, \<open>PInf\<close> and \<open>NInf\<close> are the infinities, which
  \<open>pd.isna\<close> does not count as null) and represents every other value by the rational
  it denotes. Rounding, overflow of finite results and the sign of zero are not modelled:
  a zero denominator is the positive zero that an integer or an unsigned literal gives.
\<close>

datatype fval = Fin rat | PInf | NInf | NaN

text \<open>\<open>pd.isna\<close> / \<open>dropna\<close> / \<open>fillna\<close>: only NaN is null.\<close>

fun is_nan :: "fval \<Rightarrow> bool" where
  "is_nan NaN = True"
| "is_nan _ = False"

text \<open>\<open>np.isinf\<close>.\<close>

fun is_inf :: "fval \<Rightarrow> bool" where
  "is_inf PInf = True"
| "is_inf NInf = True"
| "is_inf _ = False"

fun is_fin :: "fval \<Rightarrow> bool" where
  "is_fin (Fin _) = True"
| "is_fin _ = False"

fun fin_val :: "fval \<Rightarrow> rat" where
  "fin_val (Fin v) = v"
| "fin_val _ = 0"

fun fneg :: "fval \<Rightarrow> fval" where
  "fneg (Fin a) = Fin (- a)"
| "fneg PInf = NInf"
| "fneg NInf = PInf"
| "fneg NaN = NaN"

fun fadd :: "fval \<Rightarrow> fval \<Rightarrow> fval" where
  "fadd NaN _ = NaN"
| "fadd _ NaN = NaN"
| "fadd (Fin a) (Fin b) = Fin (a + b)"
| "fadd PInf NInf = NaN"
| "fadd NInf PInf = NaN"
| "fadd PInf _ = PInf"
| "fadd _ PInf = PInf"
| "fadd NInf _ = NInf"
| "fadd _ NInf = NInf"

definition fsub :: "fval \<Rightarrow> fval \<Rightarrow> fval" where
  "fsub a b = fadd a (fneg b)"

fun fmul :: "fval \<Rightarrow> fval \<Rightarrow> fval" where
  "fmul NaN _ = NaN"
| "fmul _ NaN = NaN"
| "fmul (Fin a) (Fin b) = Fin (a * b)"
| "fmul PInf (Fin b) = (if b = 0 then NaN else if 0 < b then PInf else NInf)"
| "fmul NInf (Fin b) = (if b = 0 then NaN else if 0 < b then NInf else PInf)"
| "fmul (Fin a) PInf = (if a = 0 then NaN else if 0 < a then PInf else NInf)"
| "fmul (Fin a) NInf = (if a = 0 then NaN else if 0 < a then NInf else PInf)"
| "fmul PInf PInf = PInf"
| "fmul NInf NInf = PInf"
| "fmul PInf NInf = NInf"
| "fmul NInf PInf = NInf"

text \<open>
  Float division does not raise on a zero divisor: a nonzero value over zero is an
  infinity of the dividend's sign, zero over zero is NaN.
\<close>

fun fdiv :: "fval \<Rightarrow> fval \<Rightarrow> fval" where
  "fdiv NaN _ = NaN"
| "fdiv _ NaN = NaN"
| "fdiv (Fin a) (Fin b) =
     (if b = 0 then (if a = 0 then NaN else if 0 < a then PInf else NInf)
      else Fin (a / b))"
| "fdiv (Fin a) PInf = Fin 0"
| "fdiv (Fin a) NInf = Fin 0"
| "fdiv PInf (Fin b) = (if 0 \<le> b then PInf else NInf)"
| "fdiv NInf (Fin b) = (if 0 \<le> b then NInf else PInf)"
| "fdiv PInf PInf = NaN"
| "fdiv PInf NInf = NaN"
| "fdiv NInf PInf = NaN"
| "fdiv NInf NInf = NaN"

text \<open>The comparison \<open>a > b\<close>; every comparison with NaN is false.\<close>

fun fgt :: "fval \<Rightarrow> fval \<Rightarrow> bool" where
  "fgt NaN _ = False"
| "fgt _ NaN = False"
| "fgt (Fin a) (Fin b) = (b < a)"
| "fgt PInf PInf = False"
| "fgt PInf _ = True"
| "fgt _ PInf = False"
| "fgt NInf _ = False"
| "fgt _ NInf = True"

section \<open>Vectorised column operations\<close>

text \<open>\<open>Series.shift(1)\<close>: every value moves down one row, the first row gets the fill.\<close>

definition shift1 :: "'a \<Rightarrow> 'a list \<Rightarrow> 'a list" where
  "shift1 d xs = take (length xs) (d # xs)"

text \<open>\<open>Series.diff()\<close> is \<open>s - s.shift(1)\<close>.\<close>

definition diff :: "fval list \<Rightarrow> fval list" where
  "diff xs = map2 fsub xs (shift1 NaN xs)"

definition fillna :: "fval \<Rightarrow> fval list \<Rightarrow> fval list" where
  "fillna v xs = map (\<lambda>x. if is_nan x then v else x) xs"

definition dropna :: "fval list \<Rightarrow> fval list" where
  "dropna xs = filter (\<lambda>x. \<not> is_nan x) xs"

text \<open>\<open>Series.replace({0: np.nan})\<close>.\<close>

definition replace_zero_nan :: "fval list \<Rightarrow> fval list" where
  "replace_zero_nan xs = map (\<lambda>x. if x = Fin 0 then NaN else x) xs"

text \<open>
  \<open>Series.pct_change()\<close> is \<open>s / s.shift(1) - 1\<close>. (Its forward fill of nulls has
  nothing to fill in a column of counts.)
\<close>

definition pct_change :: "fval list \<Rightarrow> fval list" where
  "pct_change xs = map (\<lambda>q. fsub q (Fin 1)) (map2 fdiv xs (shift1 NaN xs))"

section \<open>Resampler (lines 57 to 65)\<close>

text \<open>
  One record per row: the date as a day number (days since 1970-01-01, a Thursday) and
  the two columns the user selected as page count and traffic count. The counts are
  finite numbers: a file with blank or infinite cells in these columns is outside the
  model. Times of day are not modelled: every date is a midnight.
\<close>

record period =
  period_start :: int
  page_count :: rat
  traffic_count :: rat

text \<open>Line 57: the rows inside the selected date range.\<close>

definition date_filter :: "int \<Rightarrow> int \<Rightarrow> period list \<Rightarrow> period list" where
  "date_filter start_date end_date df =
     filter (\<lambda>r. start_date \<le> period_start r \<and> period_start r \<le> end_date) df"

text \<open>
  The frequency \<open>W-MON\<close>: weeks that end on a Monday, each labelled by that Monday. Week
  \<open>k\<close> is the seven days up to and including day \<open>7 k - 3\<close>.
\<close>

definition week_no :: "int \<Rightarrow> int" where
  "week_no d = (d + 9) div 7"

definition week_label :: "int \<Rightarrow> int" where
  "week_label k = 7 * k - 3"

text \<open>
  The frequency \<open>M\<close>: calendar months, each labelled by its last day. The two
  conversions between day numbers and the proleptic Gregorian calendar are the
  standard ones.
\<close>

definition civil_from_days :: "int \<Rightarrow> int \<times> int \<times> int" where
  "civil_from_days d =
     (let z = d + 719468;
          era = z div 146097;
          doe = z - era * 146097;
          yoe = (doe - doe div 1460 + doe div 36524 - doe div 146096) div 365;
          doy = doe - (365 * yoe + yoe div 4 - yoe div 100);
          mp = (5 * doy + 2) div 153;
          dd = doy - (153 * mp + 2) div 5 + 1;
          mm = (if mp < 10 then mp + 3 else mp - 9);
          yy = yoe + era * 400 + (if mm \<le> 2 then 1 else 0)
      in (yy, mm, dd))"

definition days_from_civil :: "int \<Rightarrow> int \<Rightarrow> int \<Rightarrow> int" where
  "days_from_civil y m d =
     (let y' = (if m \<le> 2 then y - 1 else y);
          era = y' div 400;
          yoe = y' - era * 400;
          doy = (153 * (if 2 < m then m - 3 else m + 9) + 2) div 5 + d - 1;
          doe = yoe * 365 + yoe div 4 - yoe div 100 + doy
      in era * 146097 + doe - 719468)"

definition month_no :: "int \<Rightarrow> int" where
  "month_no d = (case civil_from_days d of (y, m, _) \<Rightarrow> 12 * y + (m - 1))"

definition month_label :: "int \<Rightarrow> int" where
  "month_label k = days_from_civil ((k + 1) div 12) ((k + 1) mod 12 + 1) 1 - 1"

text \<open>
  \<open>df.resample(freq, on=date_col).sum()\<close>: the bins are all the periods of the
  frequency from the period of the earliest row to the period of the latest row, and
  each bin sums the rows that fall into it. The sum of no rows is 0, so a bin without
  rows is a record of zeros. \<open>bin_of\<close> numbers the period of a date, \<open>label\<close> is the
  date that stands for a period in the output.
\<close>

definition bin_rows :: "(int \<Rightarrow> int) \<Rightarrow> int \<Rightarrow> period list \<Rightarrow> period list" where
  "bin_rows bin_of k df = filter (\<lambda>r. bin_of (period_start r) = k) df"

definition bin_sum :: "(int \<Rightarrow> int) \<Rightarrow> (int \<Rightarrow> int) \<Rightarrow> period list \<Rightarrow> int \<Rightarrow> period" where
  "bin_sum bin_of label df k =
     \<lparr>period_start = label k,
      page_count = sum_list (map page_count (bin_rows bin_of k df)),
      traffic_count = sum_list (map traffic_count (bin_rows bin_of k df))\<rparr>"

definition first_bin :: "(int \<Rightarrow> int) \<Rightarrow> period list \<Rightarrow> int" where
  "first_bin bin_of df = Min (set (map (\<lambda>r. bin_of (period_start r)) df))"

definition last_bin :: "(int \<Rightarrow> int) \<Rightarrow> period list \<Rightarrow> int" where
  "last_bin bin_of df = Max (set (map (\<lambda>r. bin_of (period_start r)) df))"

definition resample_sum :: "(int \<Rightarrow> int) \<Rightarrow> (int \<Rightarrow> int) \<Rightarrow> period list \<Rightarrow> period list" where
  "resample_sum bin_of label df =
     (if df = [] then []
      else map (bin_sum bin_of label df) [first_bin bin_of df..last_bin bin_of df])"

datatype date_frame = Daily | Weekly | Monthly

text \<open>
  Lines 60 to 65. The sort is modelled as a stable one; on rows of equal date pandas'
  default sort promises no order.
\<close>

fun aggregate :: "date_frame \<Rightarrow> period list \<Rightarrow> period list" where
  "aggregate Weekly df = sort_key period_start (resample_sum week_no week_label df)"
| "aggregate Monthly df = sort_key period_start (resample_sum month_no month_label df)"
| "aggregate Daily df = sort_key period_start df"

text \<open>Lines 57 to 65 together.\<close>

definition resample :: "date_frame \<Rightarrow> int \<Rightarrow> int \<Rightarrow> period list \<Rightarrow> period list" where
  "resample freq start_date end_date df = aggregate freq (date_filter start_date end_date df)"

section \<open>Rate calculator (lines 67 to 75)\<close>

definition page_col :: "period list \<Rightarrow> fval list" where
  "page_col df = map (\<lambda>r. Fin (page_count r)) df"

definition traffic_col :: "period list \<Rightarrow> fval list" where
  "traffic_col df = map (\<lambda>r. Fin (traffic_count r)) df"

text \<open>\<open>df['Pages Added'] = df[page_col].diff().fillna(0)\<close>\<close>

definition pages_added :: "period list \<Rightarrow> fval list" where
  "pages_added df = fillna (Fin 0) (diff (page_col df))"

text \<open>
  \<open>df['Page Change Rate'] = df['Pages Added'] /
      (df[page_col].shift(1) + df['Pages Added']).replace({0: np.nan}) * 100\<close>
\<close>

definition page_change_rate :: "period list \<Rightarrow> fval list" where
  "page_change_rate df =
     map (\<lambda>q. fmul q (Fin 100))
       (map2 fdiv (pages_added df)
          (replace_zero_nan (map2 fadd (shift1 NaN (page_col df)) (pages_added df))))"

text \<open>\<open>df['Traffic per Page'] = df[traffic_col] / df[page_col]\<close>\<close>

definition traffic_per_page :: "period list \<Rightarrow> fval list" where
  "traffic_per_page df = map2 fdiv (traffic_col df) (page_col df)"

text \<open>\<open>df['Traffic Change Rate'] = df[traffic_col].pct_change() * 100\<close>\<close>

definition traffic_change_rate :: "period list \<Rightarrow> fval list" where
  "traffic_change_rate df = map (\<lambda>q. fmul q (Fin 100)) (pct_change (traffic_col df))"

section \<open>Smoother: \<open>Series.rolling(window=W).mean()\<close>\<close>

text \<open>
  pandas first replaces the infinities of the column by NaN. The window of row \<open>i\<close> is
  the last \<open>W\<close> rows up to and including \<open>i\<close> (fewer at the start of the column). The
  mean is taken over the non-null observations of the window, and it is returned only
  when their number reaches \<open>min_periods\<close>, which for an integer window defaults to the
  window size; otherwise the result is NaN.
\<close>

definition prep_values :: "fval list \<Rightarrow> fval list" where
  "prep_values xs = map (\<lambda>x. if is_inf x then NaN else x) xs"

definition window :: "nat \<Rightarrow> nat \<Rightarrow> 'a list \<Rightarrow> 'a list" where
  "window W i xs = drop (Suc i - W) (take (Suc i) xs)"

definition roll_mean_at :: "nat \<Rightarrow> nat \<Rightarrow> fval list \<Rightarrow> nat \<Rightarrow> fval" where
  "roll_mean_at W minp xs i =
     (let obs = map fin_val (filter is_fin (window W i xs));
          nobs = length obs
      in if minp \<le> nobs \<and> 0 < nobs then Fin (sum_list obs / of_nat nobs) else NaN)"

definition rolling_mean :: "nat \<Rightarrow> fval list \<Rightarrow> fval list" where
  "rolling_mean W xs = map (roll_mean_at W W (prep_values xs)) [0..<length xs]"

section \<open>State classifier (line 85)\<close>

datatype state = Positive | Negative

text \<open>
  \<open>np.where(df[f"Traffic per Page {W}MA"].diff().fillna(0) > 0, 'Positive', 'Negative')\<close>
\<close>

definition ranking_state :: "fval list \<Rightarrow> state list" where
  "ranking_state s =
     map (\<lambda>d. if fgt d (Fin 0) then Positive else Negative) (fillna (Fin 0) (diff s))"

section \<open>Summary aggregator (lines 88 and 89)\<close>

text \<open>\<open>df[df['Ranking State'] == g][col]\<close>: the values of a column at the rows of state \<open>g\<close>.\<close>

definition state_group :: "state \<Rightarrow> state list \<Rightarrow> fval list \<Rightarrow> fval list" where
  "state_group g st col = map snd (filter (\<lambda>sv. fst sv = g) (zip st col))"

definition fsum :: "fval list \<Rightarrow> fval" where
  "fsum xs = foldr fadd xs (Fin 0)"

text \<open>
  \<open>np.average\<close> without weights is the mean: the sum over the number of values. On an
  empty input that is zero over zero: NaN (with a warning), no exception.
\<close>

definition np_average :: "fval list \<Rightarrow> fval" where
  "np_average xs = fdiv (fsum xs) (Fin (of_nat (length xs)))"

definition group_average :: "state \<Rightarrow> state list \<Rightarrow> fval list \<Rightarrow> fval" where
  "group_average g st col = np_average (dropna (state_group g st col))"

section \<open>The dataframe and the smoothing stage (lines 12 to 18)\<close>

text \<open>
  The dataframe after the rate calculator: the period records (date, page and traffic
  columns), the four derived columns, and the columns that later stages add. The three
  smoothed columns carry the window size in their name (\<open>f"Page Change {W}MA"\<close>), so
  each is a map from the window size to the column; a column that was never assigned
  is absent.
\<close>

record dataframe =
  df_periods :: "period list"
  col_pages_added :: "fval list"
  col_page_change_rate :: "fval list"
  col_traffic_per_page :: "fval list"
  col_traffic_change_rate :: "fval list"
  col_page_change_ma :: "nat \<rightharpoonup> fval list"
  col_traffic_change_ma :: "nat \<rightharpoonup> fval list"
  col_tpp_ma :: "nat \<rightharpoonup> fval list"
  col_ranking_state :: "state list option"

definition rate_columns :: "period list \<Rightarrow> dataframe" where
  "rate_columns ps =
     \<lparr>df_periods = ps,
      col_pages_added = pages_added ps,
      col_page_change_rate = page_change_rate ps,
      col_traffic_per_page = traffic_per_page ps,
      col_traffic_change_rate = traffic_change_rate ps,
      col_page_change_ma = Map.empty,
      col_traffic_change_ma = Map.empty,
      col_tpp_ma = Map.empty,
      col_ranking_state = None\<rparr>"

text \<open>
  The body of \<open>calculate_moving_averages\<close>, as the change it makes to the dataframe
  object it is given: three column assignments, in the source's order.
\<close>

definition moving_averages :: "nat \<Rightarrow> dataframe \<Rightarrow> dataframe" where
  "moving_averages W df =
     (let df1 = df\<lparr>col_page_change_ma :=
                     (col_page_change_ma df)(W \<mapsto> rolling_mean W (col_page_change_rate df))\<rparr>;
          df2 = df1\<lparr>col_traffic_change_ma :=
                     (col_traffic_change_ma df1)(W \<mapsto> rolling_mean W (col_traffic_change_rate df1))\<rparr>
      in df2\<lparr>col_tpp_ma :=
                     (col_tpp_ma df2)(W \<mapsto> rolling_mean W (col_traffic_per_page df2))\<rparr>)"



section \<open>Segment reporter (lines 192 to 235)\<close>

datatype error = IndexError | KeyError

text \<open>Positional row access \<open>.iloc[k]\<close> on \<open>n\<close> rows; a negative \<open>k\<close> counts from the end.\<close>

definition iloc :: "nat \<Rightarrow> int \<Rightarrow> error + nat" where
  "iloc n k =
     (let j = (if k < 0 then int n + k else k)
      in if 0 \<le> j \<and> j < int n then Inr (nat j) else Inl IndexError)"

text \<open>
  One interval description. The source formats these fields into a sentence; the words
  "increased" and "decreased" in it are functions of the fields kept here.
\<close>

record entry =
  e_state :: state
  e_start_date :: int
  e_end_date :: int
  e_tpp_start :: fval
  e_tpp_end :: fval
  e_page_change :: fval
  e_traffic_change :: fval

text \<open>
  \<open>df[df['Ranking State'] != df['Ranking State'].shift(1)]\<close>, as the positions of the
  rows it keeps. The shifted column has a null in its first row, which differs from
  every label.
\<close>

definition state_changes :: "state list \<Rightarrow> nat list" where
  "state_changes st =
     filter (\<lambda>i. map Some st ! i \<noteq> shift1 None (map Some st) ! i) [0..<length st]"

text \<open>The percentage \<open>(p_end - p_start) / p_start * 100\<close> on two cells of the page column.\<close>

definition page_change_total :: "rat \<Rightarrow> rat \<Rightarrow> fval" where
  "page_change_total p_end p_start =
     fmul (fdiv (fsub (Fin p_end) (Fin p_start)) (Fin p_start)) (Fin 100)"

text \<open>
  The body of the loop over the interior segments: \<open>a\<close> is the row of change \<open>i\<close>,
  \<open>b\<close> the row of change \<open>i + 1\<close>.
\<close>

definition interior_entry ::
  "period list \<Rightarrow> fval list \<Rightarrow> fval list \<Rightarrow> state list \<Rightarrow> nat \<Rightarrow> nat \<Rightarrow> entry option" where
  "interior_entry ps tpp tcr st a b =
     (let avg_tpp_start = tpp ! a; avg_tpp_end = tpp ! b
      in if \<not> is_nan avg_tpp_start \<and> \<not> is_nan avg_tpp_end
         then Some \<lparr>e_state = st ! a,
                    e_start_date = period_start (ps ! a),
                    e_end_date = period_start (ps ! b) - 1,
                    e_tpp_start = avg_tpp_start,
                    e_tpp_end = avg_tpp_end,
                    e_page_change = page_change_total (page_count (ps ! b)) (page_count (ps ! a)),
                    e_traffic_change = tcr ! b\<rparr>
         else None)"

fun interior_segments :: "(nat \<Rightarrow> nat \<Rightarrow> entry option) \<Rightarrow> nat list \<Rightarrow> entry list" where
  "interior_segments f (a # b # cs) =
     (case f a b of Some e \<Rightarrow> [e] | None \<Rightarrow> []) @ interior_segments f (b # cs)"
| "interior_segments f cs = []"

text \<open>
  The final segment: from the last change row \<open>c\<close> to the last row \<open>l\<close>; its state
  compares the last row with the second-to-last row \<open>l2\<close>.
\<close>

definition final_entry ::
  "period list \<Rightarrow> fval list \<Rightarrow> fval list \<Rightarrow> nat \<Rightarrow> nat \<Rightarrow> nat \<Rightarrow> entry option" where
  "final_entry ps tpp tcr c l l2 =
     (let final_state = (if fgt (tpp ! l) (tpp ! l2) then Positive else Negative);
          final_avg_tpp_start = tpp ! c; final_avg_tpp_end = tpp ! l
      in if \<not> is_nan final_avg_tpp_start \<and> \<not> is_nan final_avg_tpp_end
         then Some \<lparr>e_state = final_state,
                    e_start_date = period_start (ps ! c),
                    e_end_date = Max (set (map period_start ps)),
                    e_tpp_start = final_avg_tpp_start,
                    e_tpp_end = final_avg_tpp_end,
                    e_page_change = page_change_total (page_count (ps ! l)) (page_count (ps ! c)),
                    e_traffic_change = tcr ! l\<rparr>
         else None)"

text \<open>
  The body of \<open>generate_ranking_report\<close> on the columns it reads: the period records
  (date and page columns), the smoothed traffic per page \<open>tpp\<close> and the traffic change
  rate \<open>tcr\<close>. With no change row the report is empty; otherwise the interior segments
  come first, and the final segment reads the last and the second-to-last row.
\<close>

definition report_entries :: "period list \<Rightarrow> fval list \<Rightarrow> fval list \<Rightarrow> error + entry list" where
  "report_entries ps tpp tcr =
     (let st = ranking_state tpp;
          changes = state_changes st
      in if changes = [] then Inr []
         else
           let body = interior_segments (interior_entry ps tpp tcr st) changes
           in (case iloc (length ps) (- 1) of
                 Inl e \<Rightarrow> Inl e
               | Inr l \<Rightarrow>
                   (case iloc (length ps) (- 2) of
                      Inl e \<Rightarrow> Inl e
                    | Inr l2 \<Rightarrow>
                        Inr (body @
                          (case final_entry ps tpp tcr (last changes) l l2 of
                             Some e \<Rightarrow> [e] | None \<Rightarrow> [])))))"

text \<open>
  \<open>generate_ranking_report(df)\<close>: it assigns the ranking state column of the dataframe
  it is given (a copy of the caller's) and returns that dataframe with the report.
\<close>

definition generate_ranking_report :: "nat \<Rightarrow> dataframe \<Rightarrow> error + dataframe \<times> entry list" where
  "generate_ranking_report W df =
     (case col_tpp_ma df W of
        None \<Rightarrow> Inl KeyError
      | Some tpp \<Rightarrow>
          (case report_entries (df_periods df) tpp (col_traffic_change_rate df) of
             Inl e \<Rightarrow> Inl e
           | Inr report \<Rightarrow>
               Inr (df\<lparr>col_ranking_state := Some (ranking_state tpp)\<rparr>, report)))"

section \<open>The analysis run (lines 67 to 96 and 237)\<close>

text \<open>Line 85: the classifier's column assignment.\<close>

definition classify :: "nat \<Rightarrow> dataframe \<Rightarrow> error + dataframe" where
  "classify W df =
     (case col_tpp_ma df W of
        None \<Rightarrow> Inl KeyError
      | Some tpp \<Rightarrow> Inr (df\<lparr>col_ranking_state := Some (ranking_state tpp)\<rparr>))"

text \<open>Lines 88 and 89: the two group means of the smoothed page change rate.\<close>

definition summary :: "nat \<Rightarrow> dataframe \<Rightarrow> error + fval \<times> fval" where
  "summary W df =
     (case (col_ranking_state df, col_page_change_ma df W) of
        (Some st, Some pcm) \<Rightarrow>
          Inr (group_average Positive st pcm, group_average Negative st pcm)
      | _ \<Rightarrow> Inl KeyError)"

text \<open>
  The dataframe after line 85, for the period records \<open>ps\<close> and the window size \<open>W\<close>.
\<close>

definition classified :: "period list \<Rightarrow> nat \<Rightarrow> error + dataframe" where
  "classified ps W = classify W (moving_averages W (rate_columns ps))"

text \<open>
  One run: rates, smoothing, classification, the summary, then the report. An
  exception anywhere ends the run.
\<close>

definition run :: "period list \<Rightarrow> nat \<Rightarrow> error + (fval \<times> fval) \<times> entry list" where
  "run ps W =
     (case classified ps W of
        Inl e \<Rightarrow> Inl e
      | Inr df \<Rightarrow>
          (case summary W df of
             Inl e \<Rightarrow> Inl e
           | Inr sm \<Rightarrow>
               (case generate_ranking_report W df of
                  Inl e \<Rightarrow> Inl e
                | Inr (df', report) \<Rightarrow> Inr (sm, report))))"

section \<open>The spec's reading of two stages, for comparison\<close>

text \<open>
  The smoother as the spec words it: after the first \<open>W - 1\<close> outputs, the mean of the
  non-null values of the window, a null being left out of the sum and of the count.
\<close>

definition spec_nan_skipping_average :: "nat \<Rightarrow> fval list \<Rightarrow> fval list" where
  "spec_nan_skipping_average W xs =
     map (\<lambda>i. if Suc i < W then NaN
              else np_average (dropna (window W i xs))) [0..<length xs]"


section \<open>Properties of the column operations and the classifier\<close>

lemma length_shift1: "length (shift1 d xs) = length xs"
  by (simp add: shift1_def)

lemma nth_shift1: "i < length xs \<Longrightarrow> shift1 d xs ! i = (if i = 0 then d else xs ! (i - 1))"
  by (simp add: shift1_def nth_Cons')


lemma length_diff: "length (diff xs) = length xs"
  by (simp add: diff_def length_shift1)


lemma length_fillna: "length (fillna v xs) = length xs"
  by (simp add: fillna_def)


lemma length_ranking_state: "length (ranking_state s) = length s"
  by (simp add: ranking_state_def length_fillna length_diff)





section \<open>Properties of the smoother\<close>

lemma length_rolling_mean: "length (rolling_mean W xs) = length xs"
  by (simp add: rolling_mean_def)

lemma nth_rolling_mean:
  "i < length xs \<Longrightarrow> rolling_mean W xs ! i = roll_mean_at W W (prep_values xs) i"
  by (simp add: rolling_mean_def)

lemma window_prep_values: "window W i (prep_values xs) = prep_values (window W i xs)"
  by (simp add: window_def prep_values_def take_map drop_map)

lemma filter_is_fin_prep_values: "filter is_fin (prep_values xs) = filter is_fin xs"
proof (induction xs)
  case Nil
  show ?case by (simp add: prep_values_def)
next
  case (Cons x xs)
  then show ?case by (cases x) (simp_all add: prep_values_def)
qed

lemma length_window: "i < length xs \<Longrightarrow> length (window W i xs) = min W (Suc i)"
  by (simp add: window_def)

lemma roll_mean_at_prep:
  "roll_mean_at W minp (prep_values xs) i =
     (let obs = map fin_val (filter is_fin (window W i xs))
      in if minp \<le> length obs \<and> 0 < length obs
         then Fin (sum_list obs / of_nat (length obs)) else NaN)"
  by (simp add: roll_mean_at_def window_prep_values filter_is_fin_prep_values Let_def)

lemma filter_all_length: "(length (filter P xs) = length xs) = (\<forall>x\<in>set xs. P x)"
  by (metis filter_True length_filter_less less_irrefl_nat filter_id_conv)

text \<open>
  C2, as the code has it. The first \<open>W - 1\<close> outputs are null. At every later position
  the output is null as soon as the window holds a value that is null or infinite;
  only a window of \<open>W\<close> finite values gives a mean, the mean of all \<open>W\<close> of them.
\<close>

theorem rolling_mean_null_semantics:
  assumes "i < length xs"
  shows "(Suc i < W \<longrightarrow> rolling_mean W xs ! i = NaN)
       \<and> (1 \<le> W \<and> W \<le> Suc i \<longrightarrow>
            (if \<forall>v\<in>set (window W i xs). is_fin v
             then rolling_mean W xs ! i = Fin (sum_list (map fin_val (window W i xs)) / of_nat W)
             else rolling_mean W xs ! i = NaN))"
proof (intro conjI impI)
  have len: "length (window W i xs) = min W (Suc i)"
    using assms by (rule length_window)
  have le: "length (filter is_fin (window W i xs)) \<le> length (window W i xs)"
    by (rule length_filter_le)
  {
    assume "Suc i < W"
    with len le have "\<not> W \<le> length (filter is_fin (window W i xs))" by simp
    then show "rolling_mean W xs ! i = NaN"
      using assms by (simp add: nth_rolling_mean roll_mean_at_prep Let_def)
  }
  {
    assume h: "1 \<le> W \<and> W \<le> Suc i"
    with len have lenW: "length (window W i xs) = W" by simp
    show "if \<forall>v\<in>set (window W i xs). is_fin v
          then rolling_mean W xs ! i = Fin (sum_list (map fin_val (window W i xs)) / of_nat W)
          else rolling_mean W xs ! i = NaN"
    proof (cases "\<forall>v\<in>set (window W i xs). is_fin v")
      case True
      then have "filter is_fin (window W i xs) = window W i xs" by simp
      moreover from lenW h have "window W i xs \<noteq> []" by auto
      ultimately show ?thesis
        using True lenW assms by (simp add: nth_rolling_mean roll_mean_at_prep Let_def)
    next
      case False
      then have "length (filter is_fin (window W i xs)) \<noteq> length (window W i xs)"
        by (simp add: filter_all_length)
      with le lenW have "\<not> W \<le> length (filter is_fin (window W i xs))" by simp
      with assms have "rolling_mean W xs ! i = NaN"
        by (simp add: nth_rolling_mean roll_mean_at_prep Let_def)
      then show ?thesis
        by (simp only: False if_False)
    qed
  }
qed

text \<open>
  C2 as stated fails: with \<open>W = 2\<close> the window of the third period of \<open>1, null, 3\<close>
  holds a null, the mean of its non-null values is 3, and the code returns null.
\<close>

theorem rolling_mean_nan_skipping_counterexample:
  "rolling_mean 2 [Fin 1, NaN, Fin 3] ! 2 = NaN
   \<and> spec_nan_skipping_average 2 [Fin 1, NaN, Fin 3] ! 2 = Fin 3"
  by code_simp

theorem rolling_mean_null_semantics_witness:
  "rolling_mean 2 [Fin 1, Fin 2, NaN, Fin 4, Fin 6] ! 0 = NaN
   \<and> rolling_mean 2 [Fin 1, Fin 2, NaN, Fin 4, Fin 6] ! 1 = Fin (3 / 2)
   \<and> rolling_mean 2 [Fin 1, Fin 2, NaN, Fin 4, Fin 6] ! 2 = NaN"
  using rolling_mean_null_semantics [of 0 "[Fin 1, Fin 2, NaN, Fin 4, Fin 6]" 2]
    rolling_mean_null_semantics [of 1 "[Fin 1, Fin 2, NaN, Fin 4, Fin 6]" 2]
    rolling_mean_null_semantics [of 2 "[Fin 1, Fin 2, NaN, Fin 4, Fin 6]" 2]
  by (simp add: window_def)

section \<open>Window size 1, and the rate calculator\<close>

lemma window_one: "i < length xs \<Longrightarrow> window (Suc 0) i xs = [xs ! i]"
  by (simp add: window_def take_Suc_conv_app_nth)

lemma length_prep_values: "length (prep_values xs) = length xs"
  by (simp add: prep_values_def)

lemma nth_prep_values:
  "i < length xs \<Longrightarrow> prep_values xs ! i = (if is_inf (xs ! i) then NaN else xs ! i)"
  by (simp add: prep_values_def)

lemma roll_mean_at_one:
  "i < length xs \<Longrightarrow>
   roll_mean_at (Suc 0) (Suc 0) (prep_values xs) i = (if is_inf (xs ! i) then NaN else xs ! i)"
  by (cases "xs ! i") (simp_all add: roll_mean_at_prep window_one)

text \<open>
  C9, as the code has it. With \<open>W = 1\<close> the smoother returns every finite value and
  every null unchanged, and returns null for an infinite value. So an output is null
  exactly where the raw value is null or infinite.
\<close>

theorem rolling_mean_window_one:
  "rolling_mean 1 xs = map (\<lambda>x. if is_inf x then NaN else x) xs
   \<and> (\<forall>i<length xs. is_nan (rolling_mean 1 xs ! i) = (is_nan (xs ! i) \<or> is_inf (xs ! i)))"
proof -
  have eq: "rolling_mean 1 xs = map (\<lambda>x. if is_inf x then NaN else x) xs"
    by (rule nth_equalityI) (simp_all add: length_rolling_mean nth_rolling_mean roll_mean_at_one)
  have "is_nan (rolling_mean 1 xs ! i) = (is_nan (xs ! i) \<or> is_inf (xs ! i))"
    if "i < length xs" for i
    using that by (cases "xs ! i") (simp_all add: nth_rolling_mean roll_mean_at_one)
  with eq show ?thesis by blast
qed

theorem rolling_mean_window_one_witness:
  "rolling_mean 1 [Fin 10, NaN, PInf, Fin (25 / 2)] = [Fin 10, NaN, NaN, Fin (25 / 2)]
   \<and> is_nan (rolling_mean 1 [Fin 10, NaN, PInf, Fin (25 / 2)] ! 2)
   \<and> \<not> is_nan (rolling_mean 1 [Fin 10, NaN, PInf, Fin (25 / 2)] ! 3)"
  using rolling_mean_window_one [of "[Fin 10, NaN, PInf, Fin (25 / 2)]"]
  by simp

text \<open>
  C9 as stated fails: a period with no pages and some traffic has an infinite traffic
  per page, which is not null, and the smoother with \<open>W = 1\<close> returns null for it.
\<close>

theorem rolling_mean_identity_counterexample:
  "traffic_per_page [\<lparr>period_start = 0, page_count = 0, traffic_count = 5\<rparr>] = [PInf]
   \<and> rolling_mean 1 (traffic_per_page [\<lparr>period_start = 0, page_count = 0, traffic_count = 5\<rparr>])
       = [NaN]
   \<and> \<not> is_nan PInf"
  by code_simp

text \<open>
  C3 at its failing inputs: a zero page count under a nonzero traffic count gives an
  infinite traffic per page, and a zero traffic count followed by a nonzero one gives
  an infinite traffic change rate. Neither is null.
\<close>

theorem zero_denominator_gives_infinity:
  "traffic_per_page [\<lparr>period_start = 0, page_count = 0, traffic_count = 5\<rparr>] = [PInf]
   \<and> traffic_change_rate [\<lparr>period_start = 0, page_count = 1, traffic_count = 0\<rparr>,
                           \<lparr>period_start = 1, page_count = 1, traffic_count = 5\<rparr>] = [NaN, PInf]"
  by code_simp

lemma length_page_col: "length (page_col ps) = length ps"
  by (simp add: page_col_def)


lemma length_pages_added: "length (pages_added ps) = length ps"
  by (simp add: pages_added_def length_fillna length_diff length_page_col)


lemma length_page_change_rate: "length (page_change_rate ps) = length ps"
  by (simp add: page_change_rate_def replace_zero_nan_def length_shift1 length_pages_added
      length_page_col)





section \<open>Properties of the resampler\<close>

lemma length_resample_sum:
  "df \<noteq> [] \<Longrightarrow>
   length (resample_sum bin_of label df) = nat (last_bin bin_of df - first_bin bin_of df + 1)"
  by (simp add: resample_sum_def)

lemma set_resample_sum:
  "df \<noteq> [] \<Longrightarrow>
   set (resample_sum bin_of label df)
     = bin_sum bin_of label df ` {first_bin bin_of df..last_bin bin_of df}"
  by (simp add: resample_sum_def)

lemma bin_sum_empty:
  "bin_rows bin_of k df = [] \<Longrightarrow>
   bin_sum bin_of label df k = \<lparr>period_start = label k, page_count = 0, traffic_count = 0\<rparr>"
  by (simp add: bin_sum_def)

text \<open>
  C4, as the code has it. For weekly and for monthly granularity, when some row lies in
  the selected date range, the output has as many records as there are periods from
  the period of the earliest selected row to the period of the latest one, and it
  holds the record of every period of that span. A period of the span without rows is
  in the output as a record of zeros.
\<close>

theorem resample_fills_gaps:
  assumes "date_filter start_date end_date df = rows" and "rows \<noteq> []"
  shows "length (resample Weekly start_date end_date df)
           = nat (last_bin week_no rows - first_bin week_no rows + 1)
       \<and> set (resample Weekly start_date end_date df)
           = bin_sum week_no week_label rows ` {first_bin week_no rows..last_bin week_no rows}
       \<and> length (resample Monthly start_date end_date df)
           = nat (last_bin month_no rows - first_bin month_no rows + 1)
       \<and> set (resample Monthly start_date end_date df)
           = bin_sum month_no month_label rows ` {first_bin month_no rows..last_bin month_no rows}
       \<and> (\<forall>k. bin_rows week_no k rows = [] \<longrightarrow>
              bin_sum week_no week_label rows k
                = \<lparr>period_start = week_label k, page_count = 0, traffic_count = 0\<rparr>)
       \<and> (\<forall>k. bin_rows month_no k rows = [] \<longrightarrow>
              bin_sum month_no month_label rows k
                = \<lparr>period_start = month_label k, page_count = 0, traffic_count = 0\<rparr>)"
  using assms
  by (simp add: resample_def length_resample_sum set_resample_sum bin_sum_empty)

text \<open>
  C4 as stated fails: two rows three weeks apart give four weekly records, the two in
  the middle synthesized with zero pages and zero traffic.
\<close>

theorem resample_gap_counterexample:
  "resample Weekly 19723 19744
     [\<lparr>period_start = 19723, page_count = 10, traffic_count = 100\<rparr>,
      \<lparr>period_start = 19744, page_count = 12, traffic_count = 150\<rparr>]
   = [\<lparr>period_start = 19723, page_count = 10, traffic_count = 100\<rparr>,
      \<lparr>period_start = 19730, page_count = 0, traffic_count = 0\<rparr>,
      \<lparr>period_start = 19737, page_count = 0, traffic_count = 0\<rparr>,
      \<lparr>period_start = 19744, page_count = 12, traffic_count = 150\<rparr>]"
  by code_simp

theorem resample_fills_gaps_witness:
  "length (resample Weekly 19723 19800
     [\<lparr>period_start = 19723, page_count = 10, traffic_count = 100\<rparr>,
      \<lparr>period_start = 19800, page_count = 12, traffic_count = 150\<rparr>]) = 12
   \<and> \<lparr>period_start = 19730, page_count = 0, traffic_count = 0\<rparr>
       \<in> set (resample Weekly 19723 19800
     [\<lparr>period_start = 19723, page_count = 10, traffic_count = 100\<rparr>,
      \<lparr>period_start = 19800, page_count = 12, traffic_count = 150\<rparr>])
   \<and> length (resample Monthly 19723 19800
     [\<lparr>period_start = 19723, page_count = 10, traffic_count = 100\<rparr>,
      \<lparr>period_start = 19800, page_count = 12, traffic_count = 150\<rparr>]) = 3
   \<and> \<lparr>period_start = 19782, page_count = 0, traffic_count = 0\<rparr>
       \<in> set (resample Monthly 19723 19800
     [\<lparr>period_start = 19723, page_count = 10, traffic_count = 100\<rparr>,
      \<lparr>period_start = 19800, page_count = 12, traffic_count = 150\<rparr>])"
proof -
  let ?df = "[\<lparr>period_start = 19723, page_count = 10, traffic_count = 100\<rparr>,
              \<lparr>period_start = 19800, page_count = 12, traffic_count = 150\<rparr>]"
  have f: "date_filter 19723 19800 ?df = ?df"
    by (simp add: date_filter_def)
  have ne: "?df \<noteq> []"
    by simp
  have w: "first_bin week_no ?df = 2818" "last_bin week_no ?df = 2829"
    by code_simp+
  have m: "first_bin month_no ?df = 24288" "last_bin month_no ?df = 24290"
    by code_simp+
  have we: "bin_rows week_no 2819 ?df = []"
    by code_simp
  have me: "bin_rows month_no 24289 ?df = []"
    by code_simp
  have wl: "week_label 2819 = 19730"
    by (simp add: week_label_def)
  have ml: "month_label 24289 = 19782"
    by code_simp
  note t = resample_fills_gaps [OF f ne]
  from t we wl have "bin_sum week_no week_label ?df 2819
      = \<lparr>period_start = 19730, page_count = 0, traffic_count = 0\<rparr>"
    by simp
  moreover from t me ml have "bin_sum month_no month_label ?df 24289
      = \<lparr>period_start = 19782, page_count = 0, traffic_count = 0\<rparr>"
    by simp
  moreover have "(2819::int) \<in> {2818..2829}" "(24289::int) \<in> {24288..24290}"
    by simp_all
  ultimately have
    "\<lparr>period_start = 19730, page_count = 0, traffic_count = 0\<rparr>
       \<in> bin_sum week_no week_label ?df ` {2818..2829}"
    "\<lparr>period_start = 19782, page_count = 0, traffic_count = 0\<rparr>
       \<in> bin_sum month_no month_label ?df ` {24288..24290}"
    by (metis image_eqI)+
  with t w m show ?thesis
    by simp
qed

section \<open>The run, the change rows and the last rows\<close>

lemma classified_eq:
  "classified ps W =
     Inr ((moving_averages W (rate_columns ps))
            \<lparr>col_ranking_state := Some (ranking_state (rolling_mean W (traffic_per_page ps)))\<rparr>)"
  by (simp add: classified_def classify_def moving_averages_def rate_columns_def Let_def)

lemma moving_averages_rate_columns:
  "df_periods (moving_averages W (rate_columns ps)) = ps"
  "col_traffic_change_rate (moving_averages W (rate_columns ps)) = traffic_change_rate ps"
  "col_tpp_ma (moving_averages W (rate_columns ps)) W = Some (rolling_mean W (traffic_per_page ps))"
  "col_page_change_ma (moving_averages W (rate_columns ps)) W
     = Some (rolling_mean W (page_change_rate ps))"
  by (simp_all add: moving_averages_def rate_columns_def Let_def)

lemma run_eq:
  "run ps W =
     (case report_entries ps (rolling_mean W (traffic_per_page ps)) (traffic_change_rate ps) of
        Inl e \<Rightarrow> Inl e
      | Inr report \<Rightarrow>
          Inr ((group_average Positive (ranking_state (rolling_mean W (traffic_per_page ps)))
                  (rolling_mean W (page_change_rate ps)),
                group_average Negative (ranking_state (rolling_mean W (traffic_per_page ps)))
                  (rolling_mean W (page_change_rate ps))), report))"
  by (simp add: run_def classified_eq summary_def generate_ranking_report_def
      moving_averages_rate_columns split: sum.splits)

lemma state_changes_first:
  assumes "st \<noteq> []"
  shows "0 \<in> set (state_changes st)"
proof -
  from assms have "0 < length st" by simp
  then show ?thesis by (simp add: state_changes_def nth_shift1)
qed

lemma state_changes_bound: "a \<in> set (state_changes st) \<Longrightarrow> a < length st"
  by (simp add: state_changes_def)


lemma iloc_last: "iloc n (- 1) = (if 1 \<le> n then Inr (n - 1) else Inl IndexError)"
  by (auto simp add: iloc_def Let_def)

lemma iloc_second_last: "iloc n (- 2) = (if 2 \<le> n then Inr (n - 2) else Inl IndexError)"
  by (auto simp add: iloc_def Let_def)

lemma report_entries_single:
  assumes "length ps = 1" and "tpp \<noteq> []"
  shows "report_entries ps tpp tcr = Inl IndexError"
proof -
  from assms(2) have "ranking_state tpp \<noteq> []"
    using length_ranking_state [of tpp] by auto
  then have "state_changes (ranking_state tpp) \<noteq> []"
    using state_changes_first by fastforce
  with assms(1) show ?thesis
    by (simp add: report_entries_def Let_def iloc_last iloc_second_last)
qed


section \<open>What reaches the report\<close>

lemma length_traffic_per_page: "length (traffic_per_page ps) = length ps"
  by (simp add: traffic_per_page_def traffic_col_def page_col_def)

lemma nth_traffic_per_page:
  "i < length ps \<Longrightarrow>
   traffic_per_page ps ! i = fdiv (Fin (traffic_count (ps ! i))) (Fin (page_count (ps ! i)))"
  by (simp add: traffic_per_page_def traffic_col_def page_col_def)

lemma rolling_mean_nan_or_fin: "x \<in> set (rolling_mean W xs) \<Longrightarrow> x = NaN \<or> is_fin x"
  by (auto simp add: rolling_mean_def roll_mean_at_def Let_def)

lemma last_in_window:
  assumes "i < length xs" and "1 \<le> W"
  shows "xs ! i \<in> set (window W i xs)"
proof -
  have "take (Suc i) xs = take i xs @ [xs ! i]"
    using assms(1) by (rule take_Suc_conv_app_nth)
  moreover have "Suc i - W \<le> i"
    using assms(2) by simp
  ultimately show ?thesis
    using assms(1) by (simp add: window_def)
qed

lemma rolling_mean_fin_imp:
  assumes "i < length xs" and "is_fin (rolling_mean W xs ! i)"
  shows "is_fin (xs ! i)"
proof -
  let ?w = "window W i xs"
  let ?n = "length (filter is_fin ?w)"
  from assms have "W \<le> ?n \<and> 0 < ?n"
    by (simp add: nth_rolling_mean roll_mean_at_prep Let_def split: if_splits)
  moreover have "?n \<le> length ?w"
    by (rule length_filter_le)
  moreover have "length ?w = min W (Suc i)"
    using assms(1) by (rule length_window)
  ultimately have "1 \<le> W" and "?n = length ?w"
    by arith+
  then have "\<forall>v\<in>set ?w. is_fin v" and "xs ! i \<in> set ?w"
    using assms(1) by (simp_all add: filter_all_length last_in_window)
  then show ?thesis by blast
qed

lemma traffic_per_page_zero_pages:
  "i < length ps \<Longrightarrow> page_count (ps ! i) = 0 \<Longrightarrow> \<not> is_fin (traffic_per_page ps ! i)"
  by (simp add: nth_traffic_per_page)

lemma smoothed_tpp_null_at_zero_pages:
  assumes "i < length ps" and "page_count (ps ! i) = 0"
  shows "rolling_mean W (traffic_per_page ps) ! i = NaN"
proof -
  have "\<not> is_fin (rolling_mean W (traffic_per_page ps) ! i)"
    using assms rolling_mean_fin_imp [of i "traffic_per_page ps" W]
    by (auto simp add: length_traffic_per_page traffic_per_page_zero_pages)
  moreover have "rolling_mean W (traffic_per_page ps) ! i \<in> set (rolling_mean W (traffic_per_page ps))"
    using assms(1) by (simp add: length_rolling_mean length_traffic_per_page)
  ultimately show ?thesis
    using rolling_mean_nan_or_fin by blast
qed

lemma page_change_total_fin: "p_start \<noteq> 0 \<Longrightarrow> is_fin (page_change_total p_end p_start)"
  by (simp add: page_change_total_def fsub_def)

lemma interior_segments_mem:
  "e \<in> set (interior_segments f cs) \<Longrightarrow> \<exists>a b. a \<in> set cs \<and> f a b = Some e"
proof (induction f cs rule: interior_segments.induct)
  case (1 f a b cs)
  from "1.prems" have "f a b = Some e \<or> e \<in> set (interior_segments f (b # cs))"
    by (auto split: option.splits)
  then show ?case
  proof
    assume "f a b = Some e"
    then show ?thesis
      by (intro exI [of _ a] exI [of _ b]) simp
  next
    assume "e \<in> set (interior_segments f (b # cs))"
    then obtain a' b' where "a' \<in> set (b # cs)" and "f a' b' = Some e"
      using "1.IH" by blast
    then show ?thesis
      by (intro exI [of _ a'] exI [of _ b']) simp
  qed
qed simp_all

lemma interior_entry_page_change:
  assumes "interior_entry ps (rolling_mean W (traffic_per_page ps)) tcr st a b = Some e"
    and "a < length ps"
  shows "page_count (ps ! a) \<noteq> 0 \<and> is_fin (e_page_change e)"
proof -
  from assms(1) have nn: "\<not> is_nan (rolling_mean W (traffic_per_page ps) ! a)"
    and e: "e_page_change e = page_change_total (page_count (ps ! b)) (page_count (ps ! a))"
    by (auto simp add: interior_entry_def Let_def split: if_splits)
  from nn assms(2) have "page_count (ps ! a) \<noteq> 0"
    using smoothed_tpp_null_at_zero_pages [of a ps W] by auto
  with e show ?thesis by (simp add: page_change_total_fin)
qed

lemma final_entry_page_change:
  assumes "final_entry ps (rolling_mean W (traffic_per_page ps)) tcr c l l2 = Some e"
    and "c < length ps"
  shows "page_count (ps ! c) \<noteq> 0 \<and> is_fin (e_page_change e)"
proof -
  from assms(1) have nn: "\<not> is_nan (rolling_mean W (traffic_per_page ps) ! c)"
    and e: "e_page_change e = page_change_total (page_count (ps ! l)) (page_count (ps ! c))"
    by (auto simp add: final_entry_def Let_def split: if_splits)
  from nn assms(2) have "page_count (ps ! c) \<noteq> 0"
    using smoothed_tpp_null_at_zero_pages [of c ps W] by auto
  with e show ?thesis by (simp add: page_change_total_fin)
qed

lemma report_entries_page_change:
  assumes "report_entries ps (rolling_mean W (traffic_per_page ps)) tcr = Inr report"
    and "e \<in> set report"
  shows "is_fin (e_page_change e)"
proof -
  let ?tpp = "rolling_mean W (traffic_per_page ps)"
  let ?st = "ranking_state ?tpp"
  let ?cs = "state_changes ?st"
  have len: "length ?st = length ps"
    by (simp add: length_ranking_state length_rolling_mean length_traffic_per_page)
  have bound: "a < length ps" if "a \<in> set ?cs" for a
    using that state_changes_bound [of a ?st] len by simp
  from assms have ne: "?cs \<noteq> []"
    by (auto simp add: report_entries_def Let_def)
  from assms ne obtain l l2 where
    rep: "report = interior_segments (interior_entry ps ?tpp tcr ?st) ?cs @
            (case final_entry ps ?tpp tcr (last ?cs) l l2 of Some e \<Rightarrow> [e] | None \<Rightarrow> [])"
    by (auto simp add: report_entries_def Let_def split: sum.splits)
  from assms(2) rep consider
    (interior) "e \<in> set (interior_segments (interior_entry ps ?tpp tcr ?st) ?cs)"
    | (final) "final_entry ps ?tpp tcr (last ?cs) l l2 = Some e"
    by (auto split: option.splits)
  then show ?thesis
  proof cases
    case interior
    then obtain a b where "a \<in> set ?cs" and "interior_entry ps ?tpp tcr ?st a b = Some e"
      using interior_segments_mem by blast
    then show ?thesis
      using interior_entry_page_change bound by blast
  next
    case final
    moreover have "last ?cs < length ps"
      using ne bound by simp
    ultimately show ?thesis
      using final_entry_page_change by blast
  qed
qed

section \<open>The summary and the report\<close>









text \<open>
  C10. The first row of a non-empty series is always a change row. So on a series of
  exactly one period the report generator gets to the read of the second-to-last row,
  which is out of bounds: report generation, and with it the run, ends in IndexError
  and returns no report.
\<close>

theorem report_fails_on_single_period:
  "(st \<noteq> [] \<longrightarrow> 0 \<in> set (state_changes st))
   \<and> (length (df_periods df) = 1 \<and> col_tpp_ma df W = Some tpp \<and> tpp \<noteq> [] \<longrightarrow>
        generate_ranking_report W df = Inl IndexError)
   \<and> (length ps = 1 \<longrightarrow> run ps W = Inl IndexError)"
proof (intro conjI impI)
  assume "st \<noteq> []"
  then show "0 \<in> set (state_changes st)"
    by (rule state_changes_first)
next
  assume "length (df_periods df) = 1 \<and> col_tpp_ma df W = Some tpp \<and> tpp \<noteq> []"
  then show "generate_ranking_report W df = Inl IndexError"
    by (simp add: generate_ranking_report_def report_entries_single)
next
  assume one: "length ps = 1"
  then have "rolling_mean W (traffic_per_page ps) \<noteq> []"
    using length_rolling_mean [of W "traffic_per_page ps"] length_traffic_per_page [of ps]
    by auto
  with one show "run ps W = Inl IndexError"
    by (simp add: run_eq report_entries_single)
qed

theorem report_fails_on_single_period_witness:
  "run [\<lparr>period_start = 19723, page_count = 10, traffic_count = 100\<rparr>] 3 = Inl IndexError
   \<and> 0 \<in> set (state_changes [Negative])
   \<and> generate_ranking_report 3
        (moving_averages 3
           (rate_columns [\<lparr>period_start = 19723, page_count = 10, traffic_count = 100\<rparr>]))
       = Inl IndexError"
proof -
  let ?ps = "[\<lparr>period_start = 19723, page_count = 10, traffic_count = 100\<rparr>]"
  let ?df = "moving_averages 3 (rate_columns ?ps)"
  have tpp: "col_tpp_ma ?df 3 = Some [NaN]"
    by code_simp
  have one: "length (df_periods ?df) = 1"
    by (simp add: moving_averages_rate_columns)
  show ?thesis
    using tpp one
      report_fails_on_single_period
        [where st = "[Negative]" and W = 3 and ps = ?ps and df = ?df and tpp = "[NaN]"]
    by simp
qed

text \<open>
  C7. In a run, a segment whose start period has a page count of zero produces no
  description, neither as an interior segment nor as the final one: the smoothed
  traffic per page is null at that period. A segment with a null smoothed value at a
  boundary produces none either. Every description that a run does emit carries a
  finite page change value.
\<close>

theorem report_omits_zero_page_start:
  "(\<forall>a. a < length ps \<and> page_count (ps ! a) = 0 \<longrightarrow>
        (\<forall>tcr st b. interior_entry ps (rolling_mean W (traffic_per_page ps)) tcr st a b = None)
      \<and> (\<forall>tcr l l2. final_entry ps (rolling_mean W (traffic_per_page ps)) tcr a l l2 = None))
   \<and> (\<forall>tpp tcr st a b. is_nan (tpp ! a) \<or> is_nan (tpp ! b) \<longrightarrow>
        interior_entry ps tpp tcr st a b = None)
   \<and> (\<forall>tpp tcr c l l2. is_nan (tpp ! c) \<or> is_nan (tpp ! l) \<longrightarrow>
        final_entry ps tpp tcr c l l2 = None)
   \<and> (\<forall>sm report. run ps W = Inr (sm, report) \<longrightarrow> (\<forall>e\<in>set report. is_fin (e_page_change e)))"
proof (intro conjI allI impI ballI)
  fix a tcr st b assume "a < length ps \<and> page_count (ps ! a) = 0"
  then have "rolling_mean W (traffic_per_page ps) ! a = NaN"
    by (simp add: smoothed_tpp_null_at_zero_pages)
  then show "interior_entry ps (rolling_mean W (traffic_per_page ps)) tcr st a b = None"
    by (simp add: interior_entry_def)
next
  fix a tcr l l2 assume "a < length ps \<and> page_count (ps ! a) = 0"
  then have "rolling_mean W (traffic_per_page ps) ! a = NaN"
    by (simp add: smoothed_tpp_null_at_zero_pages)
  then show "final_entry ps (rolling_mean W (traffic_per_page ps)) tcr a l l2 = None"
    by (simp add: final_entry_def)
next
  fix tpp tcr st a b assume "is_nan (tpp ! a) \<or> is_nan (tpp ! b)"
  then show "interior_entry ps tpp tcr st a b = None"
    by (auto simp add: interior_entry_def Let_def)
next
  fix tpp tcr c l l2 assume "is_nan (tpp ! c) \<or> is_nan (tpp ! l)"
  then show "final_entry ps tpp tcr c l l2 = None"
    by (auto simp add: final_entry_def Let_def)
next
  fix sm report e
  assume "run ps W = Inr (sm, report)" and "e \<in> set report"
  then show "is_fin (e_page_change e)"
    using report_entries_page_change [of ps W "traffic_change_rate ps" report e]
    by (auto simp add: run_eq split: sum.splits)
qed

theorem report_omits_zero_page_start_witness:
  "page_count ([\<lparr>period_start = 1, page_count = 0, traffic_count = 5\<rparr>,
                \<lparr>period_start = 2, page_count = 2, traffic_count = 0\<rparr>,
                \<lparr>period_start = 3, page_count = 3, traffic_count = 7\<rparr>] ! 0) = 0
   \<and> interior_entry [\<lparr>period_start = 1, page_count = 0, traffic_count = 5\<rparr>,
                \<lparr>period_start = 2, page_count = 2, traffic_count = 0\<rparr>,
                \<lparr>period_start = 3, page_count = 3, traffic_count = 7\<rparr>]
        (rolling_mean 1 (traffic_per_page [\<lparr>period_start = 1, page_count = 0, traffic_count = 5\<rparr>,
                \<lparr>period_start = 2, page_count = 2, traffic_count = 0\<rparr>,
                \<lparr>period_start = 3, page_count = 3, traffic_count = 7\<rparr>]))
        [NaN, Fin (- 100), PInf] [Negative, Negative, Positive] 0 2 = None
   \<and> run [\<lparr>period_start = 1, page_count = 0, traffic_count = 5\<rparr>,
                \<lparr>period_start = 2, page_count = 2, traffic_count = 0\<rparr>,
                \<lparr>period_start = 3, page_count = 3, traffic_count = 7\<rparr>] 1
       = Inr ((Fin (100 / 3), Fin 100),
              [\<lparr>e_state = Positive, e_start_date = 3, e_end_date = 3,
                e_tpp_start = Fin (7 / 3), e_tpp_end = Fin (7 / 3),
                e_page_change = Fin 0, e_traffic_change = PInf\<rparr>])
   \<and> is_fin (e_page_change \<lparr>e_state = Positive, e_start_date = 3, e_end_date = 3,
                e_tpp_start = Fin (7 / 3), e_tpp_end = Fin (7 / 3),
                e_page_change = Fin 0, e_traffic_change = PInf\<rparr>)"
proof -
  let ?ps = "[\<lparr>period_start = 1, page_count = 0, traffic_count = 5\<rparr>,
              \<lparr>period_start = 2, page_count = 2, traffic_count = 0\<rparr>,
              \<lparr>period_start = 3, page_count = 3, traffic_count = 7\<rparr>]"
  have r: "run ?ps 1
       = Inr ((Fin (100 / 3), Fin 100),
              [\<lparr>e_state = Positive, e_start_date = 3, e_end_date = 3,
                e_tpp_start = Fin (7 / 3), e_tpp_end = Fin (7 / 3),
                e_page_change = Fin 0, e_traffic_change = PInf\<rparr>])"
    by code_simp
  have z: "0 < length ?ps \<and> page_count (?ps ! 0) = 0"
    by simp
  note t = report_omits_zero_page_start [of ?ps 1]
  from t z have "interior_entry ?ps (rolling_mean 1 (traffic_per_page ?ps))
        [NaN, Fin (- 100), PInf] [Negative, Negative, Positive] 0 2 = None"
    by blast
  moreover from t r have "\<forall>e\<in>set [\<lparr>e_state = Positive, e_start_date = 3, e_end_date = 3,
                e_tpp_start = Fin (7 / 3), e_tpp_end = Fin (7 / 3),
                e_page_change = Fin 0, e_traffic_change = PInf\<rparr>]. is_fin (e_page_change e)"
    by blast
  then have "is_fin (e_page_change \<lparr>e_state = Positive, e_start_date = 3, e_end_date = 3,
                e_tpp_start = Fin (7 / 3), e_tpp_end = Fin (7 / 3),
                e_page_change = Fin 0, e_traffic_change = PInf\<rparr>)"
    by (simp del: is_fin.simps)
  ultimately show ?thesis
    using r z by blast
qed

section \<open>The effect of the smoothing stage on its argument\<close>







end
